theory Spec2Isabelle
  imports Complex_Main
begin

section \<open>Tensors and Python slicing\<close>

text \<open>
  A rank-4 tensor of shape (N, H, W, C) is a list of N images, each a list of H rows, each a
  list of W pixels, each a list of C channel values. Axis 0 is the outer list, axis 1 the
  rows of an image, axis 2 the pixels of a row.
\<close>

type_synonym 'a tensor4 = "'a list list list list"

text \<open>
  The entries of an image or a feature map are float values: a number, an infinity or NaN.
  The numbers are rationals, so rounding is not modelled. A comparison with NaN is false,
  and \<^verbatim>\<open>tf.minimum\<close> and \<^verbatim>\<open>tf.maximum\<close> give NaN when an operand is NaN.
  Losses, scores, reference values and learning rates are rationals.
\<close>

datatype fval = NegInf | Num rat | PosInf | NaN

fun fle :: "fval \<Rightarrow> fval \<Rightarrow> bool" where
  "fle NaN y = False"
| "fle x NaN = False"
| "fle NegInf y = True"
| "fle x PosInf = True"
| "fle (Num a) (Num b) = (a \<le> b)"
| "fle x y = False"

definition tf_minimum :: "fval \<Rightarrow> fval \<Rightarrow> fval" where
  "tf_minimum x y = (if x = NaN \<or> y = NaN then NaN else if fle x y then x else y)"

definition tf_maximum :: "fval \<Rightarrow> fval \<Rightarrow> fval" where
  "tf_maximum x y = (if x = NaN \<or> y = NaN then NaN else if fle x y then y else x)"

definition in_range :: "rat \<Rightarrow> rat \<Rightarrow> fval \<Rightarrow> bool" where
  "in_range lo hi v \<longleftrightarrow> fle (Num lo) v \<and> fle v (Num hi)"

type_synonym tensor = "fval tensor4"
type_synonym image = "fval list list list"
type_synonym matrix = "rat list list"

text \<open>
  The exceptions the modelled cells can raise. \<open>NoneOperand\<close> is the error of arithmetic
  on \<^verbatim>\<open>None\<close>: Python's TypeError (a ValueError when the other operand is a tensor).
\<close>

datatype py_error = AssertionError | IndexError | ValueError | NoneOperand

definition raises :: "py_error + 'a \<Rightarrow> bool" where
  "raises r = (case r of Inl e \<Rightarrow> True | Inr v \<Rightarrow> False)"

text \<open>Python's \<^verbatim>\<open>xs[i]\<close>: a negative index counts from the end.\<close>

definition py_index :: "'a list \<Rightarrow> int \<Rightarrow> py_error + 'a" where
  "py_index xs i =
     (if 0 \<le> i \<and> i < int (length xs) then Inr (xs ! nat i)
      else if i < 0 \<and> - int (length xs) \<le> i then Inr (xs ! nat (int (length xs) + i))
      else Inl IndexError)"

definition has_shape :: "'a tensor4 \<Rightarrow> nat \<Rightarrow> nat \<Rightarrow> nat \<Rightarrow> nat \<Rightarrow> bool" where
  "has_shape X N H W C \<longleftrightarrow>
     length X = N \<and>
     (\<forall>img \<in> set X. length img = H \<and>
        (\<forall>row \<in> set img. length row = W \<and> (\<forall>px \<in> set row. length px = C)))"

text \<open>
  Python's slice bounds: a negative bound counts from the end, and every bound is clamped
  to the length of the sequence. \<open>slice_to k xs\<close> is \<^verbatim>\<open>xs[:k]\<close> and \<open>slice_from k xs\<close>
  is \<^verbatim>\<open>xs[k:]\<close>.
\<close>

definition slice_bound :: "int \<Rightarrow> nat \<Rightarrow> nat" where
  "slice_bound k n = (if k < 0 then nat (max 0 (int n + k)) else min (nat k) n)"

definition slice_to :: "int \<Rightarrow> 'a list \<Rightarrow> 'a list" where
  "slice_to k xs = take (slice_bound k (length xs)) xs"

definition slice_from :: "int \<Rightarrow> 'a list \<Rightarrow> 'a list" where
  "slice_from k xs = drop (slice_bound k (length xs)) xs"

text \<open>\<^verbatim>\<open>tf.concat([A, B], axis=1)\<close> and \<^verbatim>\<open>tf.concat([A, B], axis=2)\<close> on rank-4 tensors.\<close>

definition concat_axis1 :: "'a tensor4 \<Rightarrow> 'a tensor4 \<Rightarrow> 'a tensor4" where
  "concat_axis1 A B = map2 (\<lambda>a b. a @ b) A B"

definition concat_axis2 :: "'a tensor4 \<Rightarrow> 'a tensor4 \<Rightarrow> 'a tensor4" where
  "concat_axis2 A B = map2 (\<lambda>a b. map2 (\<lambda>r s. r @ s) a b) A B"

section \<open>Class visualization: jitter\<close>

text \<open>
  \<^verbatim>\<open>
  def jitter(X, ox, oy):
      if ox != 0:
          left = X[:, :, :-ox]
          right = X[:, :, -ox:]
          X = tf.concat([right, left], axis=2)
      if oy != 0:
          top = X[:, :-oy]
          bottom = X[:, -oy:]
          X = tf.concat([bottom, top], axis=1)
      return X
  \<close>
\<close>

definition jitter :: "'a tensor4 \<Rightarrow> int \<Rightarrow> int \<Rightarrow> 'a tensor4" where
  "jitter X ox oy =
     (let X1 = (if ox \<noteq> 0 then
                  (let left = map (map (slice_to (- ox))) X;
                       right = map (map (slice_from (- ox))) X
                   in concat_axis2 right left)
                else X);
          X2 = (if oy \<noteq> 0 then
                  (let top = map (slice_to (- oy)) X1;
                       bottom = map (slice_from (- oy)) X1
                   in concat_axis1 bottom top)
                else X1)
      in X2)"

section \<open>Style transfer: feature extraction\<close>

text \<open>
  The network is used through \<^verbatim>\<open>cnn.net.layers\<close> only: a list of layers, each a function
  from a feature map to a feature map.
  \<^verbatim>\<open>
  def extract_features(x, cnn):
      features = []
      prev_feat = x
      for i, layer in enumerate(cnn.net.layers[:-2]):
          next_feat = layer(prev_feat)
          features.append(next_feat)
          prev_feat = next_feat
      return features
  \<close>
\<close>

record 't cnn =
  net_layers :: "('t \<Rightarrow> 't) list"

fun extract_loop :: "('t \<Rightarrow> 't) list \<Rightarrow> 't \<Rightarrow> 't list \<Rightarrow> 't list" where
  "extract_loop [] prev_feat features = features"
| "extract_loop (layer # rest) prev_feat features =
     (let next_feat = layer prev_feat
      in extract_loop rest next_feat (features @ [next_feat]))"

definition extract_features :: "'t \<Rightarrow> 't cnn \<Rightarrow> 't list" where
  "extract_features x cnn = extract_loop (slice_to (- 2) (net_layers cnn)) x []"

section \<open>Saliency maps\<close>

text \<open>
  The body between the assignment's markers is \<^verbatim>\<open>pass\<close>:
  \<^verbatim>\<open>
  def compute_saliency_maps(X, y, model):
      saliency = None
      pass
      return saliency
  \<close>
  Python's \<^verbatim>\<open>None\<close> is \<open>None\<close>; an array of shape (N, H, W) would be \<open>Some\<close> of it.
\<close>

definition compute_saliency_maps :: "tensor \<Rightarrow> int list \<Rightarrow> 'm \<Rightarrow> rat list list list option" where
  "compute_saliency_maps X y model = (let saliency = None in saliency)"

section \<open>Fooling images\<close>

text \<open>
  Arrays are objects with identity: the store is the list of the arrays allocated so far,
  and a reference is an index into it. \<^verbatim>\<open>X.copy()\<close> allocates a new array holding the
  values of \<open>X\<close>.
\<close>

type_synonym store = "tensor list"
type_synonym ref = nat

definition np_copy :: "store \<Rightarrow> ref \<Rightarrow> store \<times> ref" where
  "np_copy h X = (h @ [h ! X], length h)"

text \<open>
  \<^verbatim>\<open>
  def make_fooling_image(X, target_y, model):
      X_fooling = X.copy()
      learning_rate = 1
      pass
      return X_fooling
  \<close>
  The function returns the reference \<open>X_fooling\<close>, and the store it leaves behind.
\<close>

definition make_fooling_image ::
  "store \<Rightarrow> ref \<Rightarrow> int \<Rightarrow> (tensor \<Rightarrow> rat list list) \<Rightarrow> store \<times> ref" where
  "make_fooling_image h X target_y model =
     (let (h1, X_fooling) = np_copy h X;
          learning_rate = (1 :: int)
      in (h1, X_fooling))"

text \<open>
  \<^verbatim>\<open>tf.math.argmax\<close> of a vector: the index of its largest entry, the first one on a tie.
\<close>

definition argmax :: "rat list \<Rightarrow> py_error + int" where
  "argmax xs =
     (if xs = [] then Inl ValueError
      else Inr (int (length (takeWhile (\<lambda>v. v \<noteq> Max (set xs)) xs))))"

text \<open>
  The check of the cell that calls \<open>make_fooling_image\<close>:
  \<^verbatim>\<open>
  scores = model(X_fooling)
  assert tf.math.argmax(scores[0]).numpy() == target_y, 'The network is not fooled!'
  \<close>
\<close>

definition fooling_check :: "(tensor \<Rightarrow> rat list list) \<Rightarrow> tensor \<Rightarrow> int \<Rightarrow> py_error + unit" where
  "fooling_check model X_fooling target_y =
     (let scores = model X_fooling in
      case py_index scores 0 of
        Inl e \<Rightarrow> Inl e
      | Inr s0 \<Rightarrow>
          (case argmax s0 of
             Inl e \<Rightarrow> Inl e
           | Inr c \<Rightarrow> if c = target_y then Inr () else Inl AssertionError))"

section \<open>Style transfer: the loss functions\<close>

text \<open>
  The bodies of the four loss functions are \<^verbatim>\<open>pass\<close> (after the docstring), so each call
  returns \<^verbatim>\<open>None\<close>:
  \<^verbatim>\<open>
  def content_loss(content_weight, content_current, content_original):  pass
  def gram_matrix(features, normalize=True):                            pass
  def style_loss(feats, style_layers, style_targets, style_weights):    pass
  def tv_loss(img, tv_weight):                                          pass
  \<close>
\<close>

definition content_loss :: "rat \<Rightarrow> tensor \<Rightarrow> tensor \<Rightarrow> rat option" where
  "content_loss content_weight content_current content_original = None"

definition gram_matrix :: "tensor \<Rightarrow> bool \<Rightarrow> matrix option" where
  "gram_matrix features normalize_flag = None"

definition style_loss ::
  "tensor list \<Rightarrow> int list \<Rightarrow> matrix option list \<Rightarrow> rat list \<Rightarrow> rat option" where
  "style_loss feats style_layers style_targets style_weights = None"

definition tv_loss :: "tensor \<Rightarrow> rat \<Rightarrow> rat option" where
  "tv_loss img tv_weight = None"

section \<open>Style transfer: the checks against the reference values\<close>

text \<open>
  \<^verbatim>\<open>
  def rel_error(x,y):
      return np.max(np.abs(x - y) / (np.maximum(1e-8, np.abs(x) + np.abs(y))))
  \<close>
  on two scalars, and on two matrices. Matrices are broadcast as numpy does it: an axis of
  size one is stretched to the size of the other operand's, any other difference in shape
  raises, and so does the maximum of an array with no entry.
\<close>

definition rel_error :: "rat \<Rightarrow> rat \<Rightarrow> rat" where
  "rel_error x y = \<bar>x - y\<bar> / max (1 / 10 ^ 8) (\<bar>x\<bar> + \<bar>y\<bar>)"

definition bdim :: "nat \<Rightarrow> nat \<Rightarrow> nat option" where
  "bdim a c = (if a = c then Some a else if a = 1 then Some c else if c = 1 then Some a else None)"

definition stretch :: "nat \<Rightarrow> 'a list \<Rightarrow> 'a list" where
  "stretch n xs = (if length xs = n then xs else replicate n (hd xs))"

definition ncols :: "matrix \<Rightarrow> nat" where
  "ncols m = (case m of [] \<Rightarrow> 0 | r # rs \<Rightarrow> length r)"

definition rel_error_matrix :: "matrix \<Rightarrow> matrix \<Rightarrow> py_error + rat" where
  "rel_error_matrix x y =
     (case (bdim (length x) (length y), bdim (ncols x) (ncols y)) of
        (Some r, Some c) \<Rightarrow>
          (let xb = stretch r (map (stretch c) x);
               yb = stretch r (map (stretch c) y);
               e = concat (map2 (\<lambda>xr yr. map2 rel_error xr yr) xb yb)
           in if e = [] then Inl ValueError else Inr (Max (set e)))
      | _ \<Rightarrow> Inl ValueError)"

definition zeros_like :: "tensor \<Rightarrow> tensor" where
  "zeros_like X = map (map (map (map (\<lambda>v. Num 0)))) X"

text \<open>
  The four checks call the loss functions by name, and the name is bound when the cell runs:
  the function is a parameter here (\<open>content_loss_fn\<close> and so on), the images, the network
  and the reference value too. A check returns the error it prints.
  \<^verbatim>\<open>
  def content_loss_test(correct):
      content_layer = 2
      content_weight = 6e-2
      c_feats = extract_features(content_img_test, model)[content_layer]
      bad_img = tf.zeros(content_img_test.shape)
      feats = extract_features(bad_img, model)[content_layer]
      student_output = content_loss(content_weight, c_feats, feats)
      error = rel_error(correct, student_output)
      print('Maximum error is {:.3f}'.format(error))
  \<close>
\<close>

definition content_loss_test ::
  "(rat \<Rightarrow> tensor \<Rightarrow> tensor \<Rightarrow> rat option) \<Rightarrow> tensor cnn \<Rightarrow> tensor \<Rightarrow> rat \<Rightarrow> py_error + rat" where
  "content_loss_test content_loss_fn model content_img_test correct =
     (let content_layer = 2; content_weight = 6 / 100 in
      case py_index (extract_features content_img_test model) content_layer of
        Inl e \<Rightarrow> Inl e
      | Inr c_feats \<Rightarrow>
          (let bad_img = zeros_like content_img_test in
           case py_index (extract_features bad_img model) content_layer of
             Inl e \<Rightarrow> Inl e
           | Inr feats \<Rightarrow>
               (case content_loss_fn content_weight c_feats feats of
                  None \<Rightarrow> Inl NoneOperand
                | Some student_output \<Rightarrow> Inr (rel_error correct student_output))))"

text \<open>
  \<^verbatim>\<open>
  def gram_matrix_test(correct):
      gram = gram_matrix(extract_features(style_img_test, model)[4])
      error = rel_error(correct, gram)
      print('Maximum error is {:.3f}'.format(error))
  \<close>
\<close>

definition gram_matrix_test ::
  "(tensor \<Rightarrow> bool \<Rightarrow> matrix option) \<Rightarrow> tensor cnn \<Rightarrow> tensor \<Rightarrow> matrix \<Rightarrow> py_error + rat" where
  "gram_matrix_test gram_matrix_fn model style_img_test correct =
     (case py_index (extract_features style_img_test model) 4 of
        Inl e \<Rightarrow> Inl e
      | Inr f \<Rightarrow>
          (case gram_matrix_fn f True of
             None \<Rightarrow> Inl NoneOperand
           | Some gram \<Rightarrow> rel_error_matrix correct gram))"

text \<open>
  The loop that collects the Gram matrices of the style layers, in \<^verbatim>\<open>style_loss_test\<close> and
  in \<^verbatim>\<open>style_transfer\<close>:
  \<^verbatim>\<open>
  style_targets = []
  for idx in style_layers:
      style_targets.append(gram_matrix(feats[idx]))
  \<close>
\<close>

fun style_targets_loop ::
  "(tensor \<Rightarrow> bool \<Rightarrow> matrix option) \<Rightarrow> tensor list \<Rightarrow> int list \<Rightarrow> matrix option list
     \<Rightarrow> py_error + matrix option list" where
  "style_targets_loop gram_matrix_fn feats [] style_targets = Inr style_targets"
| "style_targets_loop gram_matrix_fn feats (idx # rest) style_targets =
     (case py_index feats idx of
        Inl e \<Rightarrow> Inl e
      | Inr f \<Rightarrow>
          style_targets_loop gram_matrix_fn feats rest (style_targets @ [gram_matrix_fn f True]))"

text \<open>
  \<^verbatim>\<open>
  def style_loss_test(correct):
      style_layers = [0, 3, 5, 6]
      style_weights = [300000, 1000, 15, 3]
      c_feats = extract_features(content_img_test, model)
      feats = extract_features(style_img_test, model)
      style_targets = []
      for idx in style_layers:
          style_targets.append(gram_matrix(feats[idx]))
      s_loss = style_loss(c_feats, style_layers, style_targets, style_weights)
      error = rel_error(correct, s_loss)
      print('Error is {:.3f}'.format(error))
  \<close>
\<close>

definition style_loss_test ::
  "(tensor \<Rightarrow> bool \<Rightarrow> matrix option) \<Rightarrow>
   (tensor list \<Rightarrow> int list \<Rightarrow> matrix option list \<Rightarrow> rat list \<Rightarrow> rat option) \<Rightarrow>
   tensor cnn \<Rightarrow> tensor \<Rightarrow> tensor \<Rightarrow> rat \<Rightarrow> py_error + rat" where
  "style_loss_test gram_matrix_fn style_loss_fn model content_img_test style_img_test correct =
     (let style_layers = [0, 3, 5, 6];
          style_weights = [300000, 1000, 15, 3];
          c_feats = extract_features content_img_test model;
          feats = extract_features style_img_test model in
      case style_targets_loop gram_matrix_fn feats style_layers [] of
        Inl e \<Rightarrow> Inl e
      | Inr style_targets \<Rightarrow>
          (case style_loss_fn c_feats style_layers style_targets style_weights of
             None \<Rightarrow> Inl NoneOperand
           | Some s_loss \<Rightarrow> Inr (rel_error correct s_loss)))"

text \<open>
  \<^verbatim>\<open>
  def tv_loss_test(correct):
      tv_weight = 2e-2
      t_loss = tv_loss(content_img_test, tv_weight)
      error = rel_error(correct, t_loss)
      print('Error is {:.3f}'.format(error))
  \<close>
\<close>

definition tv_loss_test ::
  "(tensor \<Rightarrow> rat \<Rightarrow> rat option) \<Rightarrow> tensor \<Rightarrow> rat \<Rightarrow> py_error + rat" where
  "tv_loss_test tv_loss_fn content_img_test correct =
     (let tv_weight = 2 / 100 in
      case tv_loss_fn content_img_test tv_weight of
        None \<Rightarrow> Inl NoneOperand
      | Some t_loss \<Rightarrow> Inr (rel_error correct t_loss))"

section \<open>Style transfer: the optimization loop\<close>

text \<open>
  What \<^verbatim>\<open>style_transfer\<close> takes from outside its own text is a parameter: the four loss
  functions (called by name), the network, and the library calls that compute with floats:
  \<^item> \<open>tape_gradient f x\<close> is \<^verbatim>\<open>tape.gradient(loss, img_var)\<close>, the gradient at \<open>x\<close> of the
    loss \<open>f\<close> recorded on the tape, or \<^verbatim>\<open>None\<close> when the loss does not depend on \<open>x\<close>;
  \<^item> \<open>adam_update lr n s g x\<close> is Adam's update of the variable \<open>x\<close> and of its moment
    estimates \<open>s\<close> with gradient \<open>g\<close>, at learning rate \<open>lr\<close>, after \<open>n\<close> earlier updates;
  \<^item> \<open>adam_slots0\<close> are the moment estimates of a new optimizer;
  \<^item> \<open>random_uniform x\<close> is a draw of \<^verbatim>\<open>tf.random_uniform_initializer(0, 1)\<close> with the
    shape of \<open>x\<close>.
  The loss functions are total here: one that raises is not modelled.
\<close>

record 'o notebook =
  content_loss_fn :: "rat \<Rightarrow> tensor \<Rightarrow> tensor \<Rightarrow> rat option"
  gram_matrix_fn :: "tensor \<Rightarrow> bool \<Rightarrow> matrix option"
  style_loss_fn :: "tensor list \<Rightarrow> int list \<Rightarrow> matrix option list \<Rightarrow> rat list \<Rightarrow> rat option"
  tv_loss_fn :: "tensor \<Rightarrow> rat \<Rightarrow> rat option"
  squeezenet :: "tensor cnn"
  tape_gradient :: "(tensor \<Rightarrow> py_error + rat) \<Rightarrow> tensor \<Rightarrow> tensor option"
  adam_update :: "rat \<Rightarrow> nat \<Rightarrow> 'o \<Rightarrow> tensor \<Rightarrow> tensor \<Rightarrow> tensor \<times> 'o"
  adam_slots0 :: 'o
  random_uniform :: "tensor \<Rightarrow> tensor"

text \<open>
  The arguments of \<^verbatim>\<open>style_transfer\<close>. The two images are given as loaded:
  \<open>content_img\<close> is \<^verbatim>\<open>preprocess_image(load_image(content_image, size=image_size))\<close>, and
  \<open>style_img\<close> likewise.
\<close>

record st_args =
  content_img :: image
  style_img :: image
  content_layer :: int
  content_weight :: rat
  style_layers :: "int list"
  style_weights :: "rat list"
  tv_weight :: rat
  init_random :: bool

text \<open>
  \<^verbatim>\<open>tf.keras.optimizers.schedules.PiecewiseConstantDecay(boundaries, values)\<close>, as the
  library documents it: the constructor raises unless there is one value more than there
  are boundaries, and the schedule gives \<open>values[0]\<close> when \<open>step \<le> boundaries[0]\<close>,
  \<open>values[1]\<close> when \<open>boundaries[0] < step \<le> boundaries[1]\<close>, ..., and the last value beyond
  the last boundary.
\<close>

fun piecewise_constant :: "nat list \<Rightarrow> rat list \<Rightarrow> nat \<Rightarrow> rat" where
  "piecewise_constant (b # bs) (v # vs) step =
     (if step \<le> b then v else piecewise_constant bs vs step)"
| "piecewise_constant [] (v # vs) step = v"
| "piecewise_constant bs [] step = 0"

definition PiecewiseConstantDecay :: "nat list \<Rightarrow> rat list \<Rightarrow> py_error + (nat \<Rightarrow> rat)" where
  "PiecewiseConstantDecay boundaries values =
     (if length values \<noteq> length boundaries + 1 then Inl ValueError
      else Inr (piecewise_constant boundaries values))"

text \<open>
  \<^verbatim>\<open>tf.keras.optimizers.Adam(learning_rate=...)\<close>, as the library documents it: the
  argument is a number or a schedule. The optimizer keeps it, counts its updates and holds
  the moment estimates. The rate of an update is the number kept, or the value of the
  schedule kept at the count of the updates made so far.
  \<^verbatim>\<open>optimizer.apply_gradients([(grad, img_var)])\<close> updates the variable at that rate.
\<close>

datatype lr_arg = Rate rat | Schedule "nat \<Rightarrow> rat"

record 'o adam =
  learning_rate :: lr_arg
  iterations :: nat
  slots :: 'o

definition Adam :: "'o notebook \<Rightarrow> lr_arg \<Rightarrow> 'o adam" where
  "Adam nb lr = \<lparr>learning_rate = lr, iterations = 0, slots = adam_slots0 nb\<rparr>"

definition current_rate :: "'o adam \<Rightarrow> rat" where
  "current_rate opt =
     (case learning_rate opt of Rate r \<Rightarrow> r | Schedule f \<Rightarrow> f (iterations opt))"

definition apply_gradients :: "'o notebook \<Rightarrow> 'o adam \<Rightarrow> tensor \<Rightarrow> tensor \<Rightarrow> tensor \<times> 'o adam" where
  "apply_gradients nb opt grad var =
     (let (var', s') = adam_update nb (current_rate opt) (iterations opt) (slots opt) grad var
      in (var', opt\<lparr>iterations := Suc (iterations opt), slots := s'\<rparr>))"

text \<open>
  \<^verbatim>\<open>tf.clip_by_value(t, lo, hi)\<close> is \<^verbatim>\<open>tf.maximum(tf.minimum(t, hi), lo)\<close>: every entry is
  brought down to \<open>hi\<close>, then up to \<open>lo\<close>, and an entry that is NaN stays NaN.
\<close>

definition clip_by_value :: "tensor \<Rightarrow> rat \<Rightarrow> rat \<Rightarrow> tensor" where
  "clip_by_value t lo hi =
     map (map (map (map (\<lambda>v. tf_maximum (tf_minimum v (Num hi)) (Num lo))))) t"

definition pixel_values :: "tensor \<Rightarrow> fval list" where
  "pixel_values t = concat (concat (concat t))"

text \<open>\<^verbatim>\<open>a + b\<close> on two losses, either of which may be \<^verbatim>\<open>None\<close>.\<close>

definition py_add :: "rat option \<Rightarrow> rat option \<Rightarrow> py_error + rat" where
  "py_add a b = (case (a, b) of (Some x, Some y) \<Rightarrow> Inr (x + y) | _ \<Rightarrow> Inl NoneOperand)"

text \<open>
  The state of the loop: the image variable and the optimizer.
  The computation under the tape, as a function of the image:
  \<^verbatim>\<open>
  feats = extract_features(img_var, model)
  c_loss = content_loss(content_weight, feats[content_layer], content_target)
  s_loss = style_loss(feats, style_layers, style_targets, style_weights)
  t_loss = tv_loss(img_var, tv_weight)
  loss = c_loss + s_loss + t_loss
  \<close>
\<close>

record 'o st_state =
  img_var :: tensor
  optimizer :: "'o adam"

definition st_loss ::
  "'o notebook \<Rightarrow> st_args \<Rightarrow> tensor \<Rightarrow> matrix option list \<Rightarrow> tensor \<Rightarrow> py_error + rat" where
  "st_loss nb a content_target style_targets img =
     (let feats = extract_features img (squeezenet nb) in
      case py_index feats (content_layer a) of
        Inl e \<Rightarrow> Inl e
      | Inr f \<Rightarrow>
          (let c_loss = content_loss_fn nb (content_weight a) f content_target;
               s_loss = style_loss_fn nb feats (style_layers a) style_targets (style_weights a);
               t_loss = tv_loss_fn nb img (tv_weight a)
           in case py_add c_loss s_loss of
                Inl e \<Rightarrow> Inl e
              | Inr cs \<Rightarrow> py_add (Some cs) t_loss))"

text \<open>
  One iteration of the loop (its plotting left out):
  \<^verbatim>\<open>
  with tf.GradientTape() as tape:
      tape.watch(img_var)
      ... loss = c_loss + s_loss + t_loss
  grad = tape.gradient(loss, img_var)
  optimizer.apply_gradients([(grad, img_var)])
  img_var.assign(tf.clip_by_value(img_var, -1.5, 1.5))
  \<close>
  \<^verbatim>\<open>apply_gradients\<close> raises when the gradient is \<^verbatim>\<open>None\<close>.
\<close>

definition st_iteration ::
  "'o notebook \<Rightarrow> st_args \<Rightarrow> tensor \<Rightarrow> matrix option list \<Rightarrow> 'o st_state
     \<Rightarrow> py_error + 'o st_state" where
  "st_iteration nb a content_target style_targets st =
     (case st_loss nb a content_target style_targets (img_var st) of
        Inl e \<Rightarrow> Inl e
      | Inr loss \<Rightarrow>
          (case tape_gradient nb (st_loss nb a content_target style_targets) (img_var st) of
             None \<Rightarrow> Inl ValueError
           | Some grad \<Rightarrow>
               (let (var', opt') = apply_gradients nb (optimizer st) grad (img_var st)
                in Inr \<lparr>img_var = clip_by_value var' (- (3 / 2)) (3 / 2), optimizer = opt'\<rparr>)))"

text \<open>\<^verbatim>\<open>for t in range(...)\<close>: the iterations in turn, stopping at the first that raises.\<close>

fun st_loop ::
  "'o notebook \<Rightarrow> st_args \<Rightarrow> tensor \<Rightarrow> matrix option list \<Rightarrow> nat list \<Rightarrow> 'o st_state
     \<Rightarrow> py_error + 'o st_state" where
  "st_loop nb a content_target style_targets [] st = Inr st"
| "st_loop nb a content_target style_targets (t # ts) st =
     (case st_iteration nb a content_target style_targets st of
        Inl e \<Rightarrow> Inl e
      | Inr st' \<Rightarrow> st_loop nb a content_target style_targets ts st')"

text \<open>
  What \<^verbatim>\<open>style_transfer\<close> does before its loop (its plotting left out):
  \<^verbatim>\<open>
  content_img = preprocess_image(load_image(content_image, size=image_size))
  feats = extract_features(content_img[None], model)
  content_target = feats[content_layer]
  style_img = preprocess_image(load_image(style_image, size=style_size))
  s_feats = extract_features(style_img[None], model)
  style_targets = []
  for idx in style_layers:
      style_targets.append(gram_matrix(s_feats[idx]))
  initial_lr = 3.0
  decayed_lr = 0.1
  decay_lr_at = 180
  max_iter = 200
  step = tf.Variable(0, trainable=False)
  boundaries = [decay_lr_at]
  values = [initial_lr, decayed_lr]
  learning_rate_fn = tf.keras.optimizers.schedules.PiecewiseConstantDecay(boundaries, values)
  # Later, whenever we perform an optimization step, we pass in the step.
  learning_rate = learning_rate_fn(step)
  optimizer = tf.keras.optimizers.Adam(learning_rate=learning_rate)
  if init_random:
      initializer = tf.random_uniform_initializer(0, 1)
      img = initializer(shape=content_img[None].shape)
      img_var = tf.Variable(img)
  else:
      img_var = tf.Variable(content_img[None])
  \<close>
  \<^verbatim>\<open>learning_rate_fn(step)\<close> is a call: it is evaluated here, where \<open>step\<close> is 0, and
  \<open>learning_rate\<close> is the number it returns. The optimizer is given that number, not the
  schedule, and no later line of the function assigns \<open>step\<close> or calls \<open>learning_rate_fn\<close>.
\<close>

definition max_iter :: nat where
  "max_iter = 200"

definition style_transfer_setup ::
  "'o notebook \<Rightarrow> st_args \<Rightarrow> py_error + (tensor \<times> matrix option list \<times> 'o st_state)" where
  "style_transfer_setup nb a =
     (let feats = extract_features [content_img a] (squeezenet nb) in
      case py_index feats (content_layer a) of
        Inl e \<Rightarrow> Inl e
      | Inr content_target \<Rightarrow>
          (let s_feats = extract_features [style_img a] (squeezenet nb) in
           case style_targets_loop (gram_matrix_fn nb) s_feats (style_layers a) [] of
             Inl e \<Rightarrow> Inl e
           | Inr style_targets \<Rightarrow>
               (let initial_lr = 3;
                    decayed_lr = 1 / 10;
                    decay_lr_at = 180;
                    step = 0;
                    boundaries = [decay_lr_at];
                    values = [initial_lr, decayed_lr] in
                case PiecewiseConstantDecay boundaries values of
                  Inl e \<Rightarrow> Inl e
                | Inr learning_rate_fn \<Rightarrow>
                    (let learning_rate = learning_rate_fn step;
                         optimizer = Adam nb (Rate learning_rate);
                         img_var = (if init_random a then random_uniform nb [content_img a]
                                    else [content_img a])
                     in Inr (content_target, style_targets,
                             \<lparr>img_var = img_var, optimizer = optimizer\<rparr>)))))"

text \<open>
  \<open>style_transfer_upto nb a n\<close> is the state after the setup and the first \<open>n\<close> iterations
  (iterations \<open>0, ..., n - 1\<close>); \<open>style_transfer\<close> runs all \<open>max_iter\<close> of them.
\<close>

definition style_transfer_upto :: "'o notebook \<Rightarrow> st_args \<Rightarrow> nat \<Rightarrow> py_error + 'o st_state" where
  "style_transfer_upto nb a n =
     (case style_transfer_setup nb a of
        Inl e \<Rightarrow> Inl e
      | Inr (content_target, style_targets, st0) \<Rightarrow>
          st_loop nb a content_target style_targets [0..<n] st0)"

definition style_transfer :: "'o notebook \<Rightarrow> st_args \<Rightarrow> py_error + 'o st_state" where
  "style_transfer nb a = style_transfer_upto nb a max_iter"

section \<open>Auxiliary notions and example inputs\<close>

text \<open>
  \<open>roll k xs\<close> is what \<open>jitter\<close> does to one axis: the last \<open>k\<close> entries of \<open>xs\<close> move to
  the front.
\<close>

definition roll :: "int \<Rightarrow> 'a list \<Rightarrow> 'a list" where
  "roll k xs = slice_from (- k) xs @ slice_to (- k) xs"

definition is_matrix :: "nat \<Rightarrow> nat \<Rightarrow> matrix \<Rightarrow> bool" where
  "is_matrix r c m \<longleftrightarrow> length m = r \<and> (\<forall>row \<in> set m. length row = c)"

text \<open>A batch of one image of two rows, three columns and one channel.\<close>

definition example_batch :: "nat tensor4" where
  "example_batch = [[[[1], [2], [3]], [[4], [5], [6]]]]"

text \<open>A network of five layers on numbers.\<close>

definition example_cnn :: "nat cnn" where
  "example_cnn = \<lparr>net_layers = [Suc, Suc, (\<lambda>x. 2 * x), Suc, Suc]\<rparr>"

text \<open>
  A network of nine layers, each the identity, and a notebook whose loss functions return
  numbers: the gradient is 1 at every entry and the update is a plain gradient step
  (\<open>example_step\<close>: on numbers; NaN otherwise).
\<close>

definition example_step :: "rat \<Rightarrow> fval \<Rightarrow> fval \<Rightarrow> fval" where
  "example_step lr xv gv = (case (xv, gv) of (Num x, Num g) \<Rightarrow> Num (x - lr * g) | _ \<Rightarrow> NaN)"

definition example_model :: "tensor cnn" where
  "example_model =
     \<lparr>net_layers = [\<lambda>x. x, \<lambda>x. x, \<lambda>x. x, \<lambda>x. x, \<lambda>x. x, \<lambda>x. x, \<lambda>x. x, \<lambda>x. x, \<lambda>x. x]\<rparr>"

text \<open>Loss functions that return numbers, whatever they are given.\<close>

definition example_content_loss :: "rat \<Rightarrow> tensor \<Rightarrow> tensor \<Rightarrow> rat option" where
  "example_content_loss w c t = Some 0"

definition example_gram_matrix :: "tensor \<Rightarrow> bool \<Rightarrow> matrix option" where
  "example_gram_matrix f n = Some [[1, 2], [3, 4]]"

definition example_style_loss ::
  "tensor list \<Rightarrow> int list \<Rightarrow> matrix option list \<Rightarrow> rat list \<Rightarrow> rat option" where
  "example_style_loss f l t w = Some 2"

definition example_tv_loss :: "tensor \<Rightarrow> rat \<Rightarrow> rat option" where
  "example_tv_loss i w = Some 3"

definition example_notebook :: "unit notebook" where
  "example_notebook =
     \<lparr>content_loss_fn = example_content_loss,
      gram_matrix_fn = example_gram_matrix,
      style_loss_fn = example_style_loss,
      tv_loss_fn = example_tv_loss,
      squeezenet = example_model,
      tape_gradient = (\<lambda>f x. Some (map (map (map (map (\<lambda>v. Num 1)))) x)),
      adam_update = (\<lambda>lr n s g x.
         (map2 (\<lambda>xi gi. map2 (\<lambda>xr gr. map2 (\<lambda>xp gp. map2 (example_step lr) xp gp) xr gr) xi gi) x g,
          s)),
      adam_slots0 = (),
      random_uniform = (\<lambda>x. x)\<rparr>"

text \<open>The same notebook, with a gradient that is NaN at every entry.\<close>

definition nan_notebook :: "unit notebook" where
  "nan_notebook =
     example_notebook\<lparr>tape_gradient := (\<lambda>f x. Some (map (map (map (map (\<lambda>v. NaN)))) x))\<rparr>"

definition example_args :: st_args where
  "example_args =
     \<lparr>content_img = [[[Num 0]]], style_img = [[[Num 0]]], content_layer = 2, content_weight = 6 / 100,
      style_layers = [0, 3, 5, 6], style_weights = [300000, 1000, 15, 3], tv_weight = 2 / 100,
      init_random = False\<rparr>"

text \<open>A classifier of seven classes that always prefers class 0, and a one-pixel image.\<close>

definition example_classifier :: "tensor \<Rightarrow> rat list list" where
  "example_classifier X = map (\<lambda>img. [1, 0, 0, 0, 0, 0, 0]) X"

definition example_image :: tensor where
  "example_image = [[[[Num 0, Num 0, Num 0]]]]"

section \<open>Jitter is a circular shift, undone by the opposite offsets\<close>

lemma slice_bound_neg: "0 < k \<Longrightarrow> slice_bound (- k) n = n - nat k"
  unfolding slice_bound_def by (auto simp: max_def)

lemma slice_bound_pos: "0 \<le> k \<Longrightarrow> slice_bound k n = min (nat k) n"
  unfolding slice_bound_def by auto

lemma slice_from_0: "slice_from 0 xs = xs"
  by (simp add: slice_from_def slice_bound_def)

lemma slice_to_0: "slice_to 0 xs = []"
  by (simp add: slice_to_def slice_bound_def)

lemma roll_0: "roll 0 xs = xs"
  by (simp add: roll_def slice_from_0 slice_to_0)

lemma roll_0_id: "roll 0 = (\<lambda>xs. xs)"
  by (rule ext) (simp add: roll_0)

lemma roll_rotate:
  assumes "0 \<le> k" "k < int (length xs)"
  shows "roll k xs = rotate (length xs - nat k) xs"
proof (cases "k = 0")
  case True
  then show ?thesis by (simp add: roll_0)
next
  case False
  with assms have k: "0 < k" "length xs - nat k < length xs" by auto
  then show ?thesis
    by (simp add: roll_def slice_from_def slice_to_def slice_bound_neg rotate_drop_take)
qed

lemma roll_neg_rotate:
  "0 \<le> k \<Longrightarrow> k < int (length xs) \<Longrightarrow> roll (- k) xs = rotate (nat k) xs"
  by (auto simp: roll_def slice_from_def slice_to_def slice_bound_pos rotate_drop_take min_def)

lemma length_roll: "length (roll k xs) = length xs"
  by (simp add: roll_def slice_from_def slice_to_def)

lemma roll_undo: "0 \<le> k \<Longrightarrow> k < int (length xs) \<Longrightarrow> roll (- k) (roll k xs) = xs"
  by (simp add: roll_neg_rotate length_roll) (simp add: roll_rotate rotate_rotate)

lemma nth_roll:
  assumes "0 \<le> k" "k < int (length xs)" "i < length xs"
  shows "roll k xs ! i = xs ! ((i + length xs - nat k) mod length xs)"
  using assms by (simp add: roll_rotate nth_rotate add.commute)

lemma set_roll: "set (roll k xs) = set xs"
proof -
  have "set (drop n xs @ take n xs) = set xs" for n
    by (metis append_take_drop_id set_append sup_commute)
  then show ?thesis by (simp add: roll_def slice_from_def slice_to_def del: set_append)
qed

lemma map_roll: "map f (roll k xs) = roll k (map f xs)"
  by (simp add: roll_def slice_from_def slice_to_def take_map drop_map)

lemma map2_same: "map2 f (map g xs) (map h xs) = map (\<lambda>x. f (g x) (h x)) xs"
  by (induction xs) auto

lemma jitter_roll: "jitter X ox oy = map (\<lambda>img. roll oy (map (roll ox) img)) X"
proof -
  have a: "(if ox \<noteq> 0
            then concat_axis2 (map (map (slice_from (- ox))) X) (map (map (slice_to (- ox))) X)
            else X)
        = map (map (roll ox)) X"
    by (cases "ox = 0") (simp_all add: concat_axis2_def map2_same roll_0_id roll_def)
  have b: "(if oy \<noteq> 0
            then concat_axis1 (map (slice_from (- oy)) Y) (map (slice_to (- oy)) Y)
            else Y)
        = map (roll oy) Y" for Y :: "'a tensor4"
    by (cases "oy = 0") (simp_all add: concat_axis1_def map2_same roll_0_id roll_def)
  show ?thesis
    unfolding jitter_def Let_def a b by simp
qed

lemma has_shape_jitter:
  assumes "has_shape X N H W C"
  shows "has_shape (jitter X ox oy) N H W C"
  using assms by (auto simp: has_shape_def jitter_roll length_roll set_roll)

lemma jitter_nth:
  assumes sh: "has_shape X N H W C"
    and ox: "0 \<le> ox" "ox < int W" and oy: "0 \<le> oy" "oy < int H"
    and n: "n < N" and h: "h < H" and w: "w < W"
  shows "jitter X ox oy ! n ! h ! w
       = X ! n ! ((h + H - nat oy) mod H) ! ((w + W - nat ox) mod W)"
proof -
  let ?h = "(h + H - nat oy) mod H"
  from sh n have Xn: "X ! n \<in> set X" and lenX: "length X = N"
    by (auto simp: has_shape_def)
  with sh have lenimg: "length (X ! n) = H"
    by (auto simp: has_shape_def)
  from h have h': "?h < H" by simp
  with lenimg have row: "X ! n ! ?h \<in> set (X ! n)" by simp
  with sh Xn have lenrow: "length (X ! n ! ?h) = W"
    by (auto simp: has_shape_def)
  have "jitter X ox oy ! n ! h = roll oy (map (roll ox) (X ! n)) ! h"
    using n lenX by (simp add: jitter_roll)
  also have "\<dots> = map (roll ox) (X ! n) ! ?h"
    using oy h lenimg by (simp add: nth_roll)
  also have "\<dots> = roll ox (X ! n ! ?h)"
    using h' lenimg by simp
  finally have "jitter X ox oy ! n ! h ! w = roll ox (X ! n ! ?h) ! w" by simp
  also have "\<dots> = X ! n ! ?h ! ((w + W - nat ox) mod W)"
    using ox w lenrow by (simp add: nth_roll)
  finally show ?thesis .
qed

lemma jitter_undo:
  assumes sh: "has_shape X N H W C"
    and ox: "0 \<le> ox" "ox < int W" and oy: "0 \<le> oy" "oy < int H"
  shows "jitter (jitter X ox oy) (- ox) (- oy) = X"
proof -
  have "map (\<lambda>img. roll (- oy) (map (roll (- ox)) (roll oy (map (roll ox) img)))) X = X"
  proof (rule map_idI)
    fix img assume img: "img \<in> set X"
    with sh have lenimg: "length img = H" by (auto simp: has_shape_def)
    have rows: "map (roll (- ox)) (map (roll ox) img) = img"
    proof -
      have "map (\<lambda>row. roll (- ox) (roll ox row)) img = img"
      proof (rule map_idI)
        fix row assume "row \<in> set img"
        with sh img have "length row = W" by (auto simp: has_shape_def)
        with ox show "roll (- ox) (roll ox row) = row" by (simp add: roll_undo)
      qed
      then show ?thesis by (simp add: o_def)
    qed
    have "roll (- oy) (map (roll (- ox)) (roll oy (map (roll ox) img)))
        = roll (- oy) (roll oy (map (roll (- ox)) (map (roll ox) img)))"
      by (simp only: map_roll)
    also have "\<dots> = roll (- oy) (roll oy img)" by (simp only: rows)
    also have "\<dots> = img" using oy lenimg by (simp add: roll_undo)
    finally show "roll (- oy) (map (roll (- ox)) (roll oy (map (roll ox) img))) = img" .
  qed
  then show ?thesis by (simp add: jitter_roll o_def)
qed

lemma jitter_0: "jitter X 0 0 = X"
  by (simp add: jitter_def)

text \<open>
  Claim C7. For \<open>X\<close> of shape (N, H, W, C) and offsets \<open>0 \<le> ox < W\<close>, \<open>0 \<le> oy < H\<close>:
  \<open>jitter X ox oy\<close> has the shape of \<open>X\<close> and is \<open>X\<close> shifted circularly by \<open>oy\<close> along the
  height and by \<open>ox\<close> along the width; jittering the result by \<open>- ox\<close> and \<open>- oy\<close> gives
  \<open>X\<close> back; and \<open>jitter X 0 0\<close> is \<open>X\<close>.
\<close>

theorem jitter_circular_shift_undone:
  assumes "has_shape X N H W C" "0 \<le> ox" "ox < int W" "0 \<le> oy" "oy < int H"
  shows "has_shape (jitter X ox oy) N H W C \<and>
         (\<forall>n<N. \<forall>h<H. \<forall>w<W.
            jitter X ox oy ! n ! h ! w
              = X ! n ! ((h + H - nat oy) mod H) ! ((w + W - nat ox) mod W)) \<and>
         jitter (jitter X ox oy) (- ox) (- oy) = X \<and>
         jitter X 0 0 = X"
proof (intro conjI allI impI)
  show "has_shape (jitter X ox oy) N H W C"
    using assms(1) by (rule has_shape_jitter)
  show "jitter (jitter X ox oy) (- ox) (- oy) = X"
    using assms by (rule jitter_undo)
  show "jitter X 0 0 = X"
    by (rule jitter_0)
  fix n h w assume "n < N" "h < H" "w < W"
  with assms show "jitter X ox oy ! n ! h ! w
      = X ! n ! ((h + H - nat oy) mod H) ! ((w + W - nat ox) mod W)"
    by (rule jitter_nth)
qed

text \<open>On the example batch, shifted by one row and one column.\<close>

lemma example_batch_shape: "has_shape example_batch 1 2 3 1"
  by (simp add: has_shape_def example_batch_def)

lemma example_batch_jitter:
  "jitter example_batch 1 1 = [[[[6], [4], [5]], [[3], [1], [2]]]]"
  by (simp add: jitter_def example_batch_def concat_axis1_def concat_axis2_def
      slice_to_def slice_from_def slice_bound_def Let_def)

theorem jitter_circular_shift_undone_witness:
  "has_shape example_batch 1 2 3 1 \<and>
   jitter example_batch 1 1 = [[[[6], [4], [5]], [[3], [1], [2]]]] \<and>
   jitter example_batch 1 1 ! 0 ! 0 ! 0 = example_batch ! 0 ! 1 ! 2 \<and>
   jitter (jitter example_batch 1 1) (- 1) (- 1) = example_batch \<and>
   jitter example_batch 0 0 = example_batch"
proof -
  have "(0::int) \<le> 1" "(1::int) < int 3" "(1::int) < int 2" by simp_all
  with jitter_circular_shift_undone [OF example_batch_shape, of 1 1]
  have undo: "jitter (jitter example_batch 1 1) (- 1) (- 1) = example_batch"
    and zero: "jitter example_batch 0 0 = example_batch"
    by simp_all
  have nth: "jitter example_batch 1 1 ! 0 ! 0 ! 0 = example_batch ! 0 ! 1 ! 2"
    by (simp add: example_batch_jitter) (simp add: example_batch_def)
  from example_batch_shape example_batch_jitter nth undo zero show ?thesis
    by simp
qed

section \<open>Feature extraction is the composition of the layers\<close>

lemma slice_to_minus2: "slice_to (- 2) xs = take (length xs - 2) xs"
proof -
  have "nat (max 0 (int (length xs) + - 2)) = length xs - 2" by arith
  then show ?thesis by (simp add: slice_to_def slice_bound_def)
qed

lemma extract_loop_acc: "extract_loop ls x acc = acc @ extract_loop ls x []"
proof (induction ls arbitrary: x acc)
  case Nil
  show ?case by simp
next
  case (Cons l ls)
  have "extract_loop (l # ls) x acc = (acc @ [l x]) @ extract_loop ls (l x) []"
    using Cons.IH [of "l x" "acc @ [l x]"] by (simp add: Let_def)
  also have "\<dots> = acc @ extract_loop (l # ls) x []"
    using Cons.IH [of "l x" "[l x]"] by (simp add: Let_def)
  finally show ?case .
qed

lemma extract_loop_Cons: "extract_loop (l # ls) x [] = l x # extract_loop ls (l x) []"
  using extract_loop_acc [of ls "l x" "[l x]"] by (simp add: Let_def)

lemma length_extract_loop: "length (extract_loop ls x []) = length ls"
  by (induction ls arbitrary: x) (simp_all add: extract_loop_Cons del: extract_loop.simps(2))

lemma nth_extract_loop:
  "i < length ls \<Longrightarrow>
   extract_loop ls x [] ! i = (ls ! i) (if i = 0 then x else extract_loop ls x [] ! (i - 1))"
proof (induction ls arbitrary: x i)
  case Nil
  then show ?case by simp
next
  case (Cons l ls)
  show ?case
  proof (cases i)
    case 0
    then show ?thesis by (simp add: extract_loop_Cons del: extract_loop.simps)
  next
    case (Suc j)
    with Cons.prems have j: "j < length ls" by simp
    show ?thesis
      using Cons.IH [OF j, of "l x"] Suc
      by (cases j) (simp_all add: extract_loop_Cons del: extract_loop.simps)
  qed
qed

text \<open>
  Claim C9. \<open>extract_features x cnn\<close> has one entry per layer of \<^verbatim>\<open>cnn.net.layers\<close> but the
  last two; entry 0 is the first layer applied to \<open>x\<close>, and entry \<open>i\<close> is layer \<open>i\<close>
  applied to entry \<open>i - 1\<close>. The list starts with that first feature map, not with \<open>x\<close>.
\<close>

theorem extract_features_sequential:
  "length (extract_features x cnn) = length (net_layers cnn) - 2 \<and>
   (\<forall>i < length (net_layers cnn) - 2.
      extract_features x cnn ! i
        = (net_layers cnn ! i) (if i = 0 then x else extract_features x cnn ! (i - 1)))"
proof -
  let ?ls = "take (length (net_layers cnn) - 2) (net_layers cnn)"
  have ef: "extract_features x cnn = extract_loop ?ls x []"
    by (simp add: extract_features_def slice_to_minus2)
  have len: "length ?ls = length (net_layers cnn) - 2" by simp
  show ?thesis
    unfolding ef using nth_extract_loop [of _ ?ls x]
    by (simp add: length_extract_loop)
qed

text \<open>On the five layers of \<open>example_cnn\<close>: three feature maps, each from the one before.\<close>

theorem extract_features_sequential_witness:
  "length (extract_features 0 example_cnn) = 3 \<and>
   extract_features 0 example_cnn ! 0 = Suc 0 \<and>
   extract_features 0 example_cnn ! 1 = Suc (extract_features 0 example_cnn ! 0) \<and>
   extract_features 0 example_cnn ! 2 = 2 * extract_features 0 example_cnn ! 1 \<and>
   extract_features 0 example_cnn = [1, 2, 4]"
proof -
  have ex: "extract_features 0 example_cnn = [1, 2, 4]"
    by (simp add: extract_features_def example_cnn_def slice_to_def slice_bound_def Let_def)
  show ?thesis
    using extract_features_sequential [of 0 example_cnn]
    by (simp add: ex)
qed


section \<open>Saliency maps and fooling images as the code has them\<close>

text \<open>
  Claim C1. For a batch \<open>X\<close> of shape (N, H, W, 3) and labels \<open>y\<close>,
  \<open>compute_saliency_maps X y model\<close> should be an array of shape (N, H, W) with no
  negative entry. The function returns \<^verbatim>\<open>None\<close> on every input.
\<close>

theorem compute_saliency_maps_returns_None:
  "compute_saliency_maps X y model = None"
  by (simp add: compute_saliency_maps_def)

text \<open>
  Claim C2. \<open>make_fooling_image\<close> should return an image that the model classifies as
  \<open>target_y\<close>. The image it returns holds the values of its argument: the check of the
  calling cell passes on the result exactly when it passes on the original image.
\<close>

theorem make_fooling_image_returns_input:
  "X < length h \<Longrightarrow>
   (case make_fooling_image h X target_y model of
      (h', X_fooling) \<Rightarrow>
        h' ! X_fooling = h ! X \<and>
        fooling_check model (h' ! X_fooling) target_y = fooling_check model (h ! X) target_y)"
  by (simp add: make_fooling_image_def np_copy_def)

text \<open>
  An image that the classifier assigns to class 0, with target class 6: the image comes
  back as it went in, and the assertion of the cell fails.
\<close>

theorem make_fooling_image_returns_input_witness:
  "(case make_fooling_image [example_image] 0 6 example_classifier of
      (h', X_fooling) \<Rightarrow>
        h' ! X_fooling = example_image \<and>
        fooling_check example_classifier (h' ! X_fooling) 6 = Inl AssertionError)"
proof -
  have check: "fooling_check example_classifier example_image 6 = Inl AssertionError"
    by (simp add: fooling_check_def example_classifier_def example_image_def py_index_def
        argmax_def)
  from make_fooling_image_returns_input
      [where X = 0 and h = "[example_image]" and target_y = 6 and model = example_classifier]
  show ?thesis
    by (simp add: check split: prod.splits)
qed

text \<open>
  Claim C10. \<open>make_fooling_image\<close> leaves its argument unchanged: the array \<open>X\<close> refers to
  holds the same values after the call, as does every array that existed before it, and
  the array returned is another one.
\<close>

theorem make_fooling_image_leaves_argument:
  "X < length h \<Longrightarrow>
   (case make_fooling_image h X target_y model of
      (h', X_fooling) \<Rightarrow> h' ! X = h ! X \<and> take (length h) h' = h \<and> X_fooling \<noteq> X)"
  by (simp add: make_fooling_image_def np_copy_def nth_append)

theorem make_fooling_image_leaves_argument_witness:
  "make_fooling_image [example_image] 0 6 example_classifier
     = ([example_image, example_image], 1) \<and>
   [example_image, example_image] ! 0 = [example_image] ! 0 \<and>
   take (length [example_image]) [example_image, example_image] = [example_image]"
  using make_fooling_image_leaves_argument [of 0 "[example_image]" 6 example_classifier]
  by (simp add: make_fooling_image_def np_copy_def)

section \<open>The Gram matrix and the total-variation loss as the code has them\<close>

text \<open>
  Claim C3. For features of shape (1, H, W, C), \<open>gram_matrix\<close> should return the (C, C)
  matrix of the dot products of the channels over the H * W positions, divided by
  H * W * C when normalizing. The function returns \<^verbatim>\<open>None\<close> on every input.
\<close>

theorem gram_matrix_returns_None:
  "gram_matrix features normalize_flag = None"
  by (simp add: gram_matrix_def)

text \<open>
  Claim C4. For an image of shape (1, H, W, 3), \<open>tv_loss\<close> should return the weight times
  the sum of the squared differences of vertically and of horizontally adjacent pixels.
  The function returns \<^verbatim>\<open>None\<close> on every input.
\<close>

theorem tv_loss_returns_None:
  "tv_loss img w = None"
  by (simp add: tv_loss_def)

section \<open>The checks against the reference values\<close>

lemma stretch_same: "length xs = n \<Longrightarrow> stretch n xs = xs"
  by (simp add: stretch_def)

lemma is_matrix_stretch:
  assumes "is_matrix r c x"
  shows "stretch r (map (stretch c) x) = x"
proof -
  from assms have "map (stretch c) x = x"
    by (intro map_idI) (simp add: is_matrix_def stretch_same)
  with assms show ?thesis by (simp add: is_matrix_def stretch_same)
qed

lemma is_matrix_ncols: "is_matrix r c x \<Longrightarrow> 0 < r \<Longrightarrow> ncols x = c"
  by (cases x) (simp_all add: is_matrix_def ncols_def)

lemma is_matrix_entries:
  assumes "is_matrix r c x" "is_matrix r c y" "0 < r" "0 < c"
  shows "concat (map2 (\<lambda>xr yr. map2 f xr yr) x y) \<noteq> []"
proof -
  from assms obtain xr xs yr ys where x: "x = xr # xs" and y: "y = yr # ys"
    by (cases x; cases y) (auto simp: is_matrix_def)
  with assms have "length xr = c" "length yr = c" by (simp_all add: is_matrix_def)
  with assms(4) have "map2 f xr yr \<noteq> []" by (cases xr; cases yr) auto
  with x y show ?thesis by simp
qed

lemma rel_error_matrix_same_shape:
  assumes "is_matrix r c x" "is_matrix r c y" "0 < r" "0 < c"
  shows "rel_error_matrix x y = Inr (Max (set (concat (map2 (\<lambda>xr yr. map2 rel_error xr yr) x y))))"
proof -
  from assms have len: "length x = r" "length y = r" by (simp_all add: is_matrix_def)
  from assms have cols: "ncols x = c" "ncols y = c" by (simp_all add: is_matrix_ncols)
  let ?e = "concat (map2 (\<lambda>xr yr. map2 rel_error xr yr) x y)"
  have ne: "?e \<noteq> []" by (rule is_matrix_entries [OF assms])
  have "rel_error_matrix x y = (if ?e = [] then Inl ValueError else Inr (Max (set ?e)))"
    by (simp add: rel_error_matrix_def len cols bdim_def is_matrix_stretch [OF assms(1)]
        is_matrix_stretch [OF assms(2)] Let_def del: concat_eq_Nil_conv set_concat)
  with ne show ?thesis by (simp only: if_False)
qed

text \<open>
  Claim C6, amended. The checks of the four losses against their reference values do not
  raise on failure. Where the features they index exist and the loss function returns a
  value (for the Gram matrix: one of the shape of the reference, with an entry), each
  returns the relative error it prints, however large. Only the check of the fooling image
  raises on failure: an AssertionError when the predicted class is not the target.
\<close>

theorem loss_checks_print_without_comparing:
  "(py_index (extract_features img m) 2 = Inr cf \<and>
    py_index (extract_features (zeros_like img) m) 2 = Inr f \<and>
    cl (6 / 100) cf f = Some v
      \<longrightarrow> content_loss_test cl m img correct = Inr (rel_error correct v)) \<and>
   (py_index (extract_features simg m) 4 = Inr sf \<and> gm sf True = Some g \<and>
    is_matrix r c correctm \<and> is_matrix r c g \<and> 0 < r \<and> 0 < c
      \<longrightarrow> gram_matrix_test gm m simg correctm
            = Inr (Max (set (concat (map2 (\<lambda>xr yr. map2 rel_error xr yr) correctm g))))) \<and>
   (style_targets_loop gm (extract_features simg m) [0, 3, 5, 6] [] = Inr tg \<and>
    sl (extract_features img m) [0, 3, 5, 6] tg [300000, 1000, 15, 3] = Some sv
      \<longrightarrow> style_loss_test gm sl m img simg correct = Inr (rel_error correct sv)) \<and>
   (tvl img (2 / 100) = Some tv
      \<longrightarrow> tv_loss_test tvl img correct = Inr (rel_error correct tv)) \<and>
   (classifier Xf = s0 # rest \<and> s0 \<noteq> []
      \<longrightarrow> fooling_check classifier Xf target
            = (if argmax s0 = Inr target then Inr () else Inl AssertionError))"
proof (intro conjI impI)
  assume "py_index (extract_features img m) 2 = Inr cf \<and>
    py_index (extract_features (zeros_like img) m) 2 = Inr f \<and> cl (6 / 100) cf f = Some v"
  then show "content_loss_test cl m img correct = Inr (rel_error correct v)"
    by (simp add: content_loss_test_def Let_def)
next
  assume "py_index (extract_features simg m) 4 = Inr sf \<and> gm sf True = Some g \<and>
    is_matrix r c correctm \<and> is_matrix r c g \<and> 0 < r \<and> 0 < c"
  then show "gram_matrix_test gm m simg correctm
      = Inr (Max (set (concat (map2 (\<lambda>xr yr. map2 rel_error xr yr) correctm g))))"
    using rel_error_matrix_same_shape [of r c correctm g]
    by (simp add: gram_matrix_test_def del: set_concat)
next
  assume "style_targets_loop gm (extract_features simg m) [0, 3, 5, 6] [] = Inr tg \<and>
    sl (extract_features img m) [0, 3, 5, 6] tg [300000, 1000, 15, 3] = Some sv"
  then show "style_loss_test gm sl m img simg correct = Inr (rel_error correct sv)"
    by (simp add: style_loss_test_def Let_def)
next
  assume "tvl img (2 / 100) = Some tv"
  then show "tv_loss_test tvl img correct = Inr (rel_error correct tv)"
    by (simp add: tv_loss_test_def Let_def)
next
  assume "classifier Xf = s0 # rest \<and> s0 \<noteq> []"
  then show "fooling_check classifier Xf target
      = (if argmax s0 = Inr target then Inr () else Inl AssertionError)"
    by (simp add: fooling_check_def py_index_def argmax_def Let_def)
qed

lemma example_features:
  "extract_features X example_model = [X, X, X, X, X, X, X]"
  by (simp add: extract_features_def example_model_def slice_to_def slice_bound_def Let_def)

lemma zeros_like_example: "zeros_like example_image = example_image"
  by (simp add: zeros_like_def example_image_def)

text \<open>
  Claim C6 as stated fails: with reference value 1 and a content loss that returns 0, the
  relative error is 1, beyond the tolerance 1e-8, and \<open>content_loss_test\<close> returns.
\<close>

theorem content_loss_check_returns_beyond_tolerance:
  "content_loss_test example_content_loss example_model example_image 1 = Inr 1 \<and>
   \<not> raises (content_loss_test example_content_loss example_model example_image 1) \<and>
   (1 :: rat) / 10 ^ 8 < 1"
  by (simp add: content_loss_test_def example_features zeros_like_example py_index_def
      example_content_loss_def rel_error_def raises_def Let_def)

theorem loss_checks_print_without_comparing_witness:
  "content_loss_test example_content_loss example_model example_image 1 = Inr 1 \<and>
   gram_matrix_test example_gram_matrix example_model example_image [[1, 2], [3, 5]] = Inr (1 / 9) \<and>
   style_loss_test example_gram_matrix example_style_loss example_model example_image
     example_image 1 = Inr (1 / 3) \<and>
   tv_loss_test example_tv_loss example_image 1 = Inr (1 / 2) \<and>
   fooling_check example_classifier example_image 6 = Inl AssertionError"
proof -
  note t = loss_checks_print_without_comparing
    [where img = example_image and m = example_model and cf = example_image
       and f = example_image and cl = example_content_loss and v = 0 and correct = 1
       and simg = example_image and sf = example_image and gm = example_gram_matrix
       and g = "[[1, 2], [3, 4]]" and r = 2 and c = 2 and correctm = "[[1, 2], [3, 5]]"
       and tg = "[Some [[1, 2], [3, 4]], Some [[1, 2], [3, 4]], Some [[1, 2], [3, 4]],
                  Some [[1, 2], [3, 4]]]"
       and sl = example_style_loss and sv = 2 and tvl = example_tv_loss and tv = 3
       and classifier = example_classifier and Xf = example_image
       and ?s0.0 = "[1, 0, 0, 0, 0, 0, 0]" and rest = "[]" and target = 6]
  have c: "content_loss_test example_content_loss example_model example_image 1 = Inr 1"
    using t by (simp add: example_features zeros_like_example py_index_def
        example_content_loss_def rel_error_def)
  have g: "gram_matrix_test example_gram_matrix example_model example_image [[1, 2], [3, 5]]
      = Inr (1 / 9)"
    using t by (simp add: example_features py_index_def example_gram_matrix_def is_matrix_def
        rel_error_def)
  have s: "style_loss_test example_gram_matrix example_style_loss example_model example_image
      example_image 1 = Inr (1 / 3)"
    using t by (simp add: example_features py_index_def example_gram_matrix_def
        example_style_loss_def rel_error_def)
  have v: "tv_loss_test example_tv_loss example_image 1 = Inr (1 / 2)"
    using t by (simp add: example_tv_loss_def rel_error_def)
  have a: "fooling_check example_classifier example_image 6 = Inl AssertionError"
    using t by (simp add: example_classifier_def example_image_def argmax_def)
  from c g s v a show ?thesis by simp
qed

text \<open>
  With the loss functions as the notebook defines them, each of the four checks raises,
  whatever the reference: the relative error of \<^verbatim>\<open>None\<close> cannot be computed.
\<close>

lemma checks_as_written:
  "raises (content_loss_test content_loss m img correct) \<and>
   raises (gram_matrix_test gram_matrix m simg correctm) \<and>
   raises (style_loss_test gram_matrix style_loss m img simg correct) \<and>
   raises (tv_loss_test tv_loss img correct)"
  by (simp add: raises_def content_loss_test_def gram_matrix_test_def style_loss_test_def
      tv_loss_test_def content_loss_def gram_matrix_def style_loss_def tv_loss_def Let_def
      split: sum.splits)

section \<open>The optimization loop of style transfer\<close>

lemma st_loop_append:
  "st_loop nb a ct tg (ts @ us) st =
     (case st_loop nb a ct tg ts st of
        Inl e \<Rightarrow> Inl e
      | Inr st' \<Rightarrow> st_loop nb a ct tg us st')"
  by (induction ts arbitrary: st) (simp_all split: sum.splits)

lemma pixel_values_clip:
  "pixel_values (clip_by_value t lo hi)
     = map (\<lambda>v. tf_maximum (tf_minimum v (Num hi)) (Num lo)) (pixel_values t)"
  by (simp add: pixel_values_def clip_by_value_def map_concat o_def)

lemma clip_entry:
  assumes "lo \<le> hi"
  shows "tf_maximum (tf_minimum v (Num hi)) (Num lo) = NaN \<or>
         in_range lo hi (tf_maximum (tf_minimum v (Num hi)) (Num lo))"
  using assms by (cases v) (auto simp: tf_maximum_def tf_minimum_def in_range_def)

lemma clip_entry_NaN:
  "tf_maximum (tf_minimum v (Num hi)) (Num lo) = NaN \<longleftrightarrow> v = NaN"
  by (cases v) (auto simp: tf_maximum_def tf_minimum_def)

lemma clip_in_range:
  assumes "lo \<le> hi" and "v \<in> set (pixel_values (clip_by_value t lo hi))"
  shows "v = NaN \<or> in_range lo hi v"
  using assms clip_entry [of lo hi] by (auto simp: pixel_values_clip)

lemma st_iteration_clipped:
  assumes "st_iteration nb a ct tg st = Inr st'"
    and "v \<in> set (pixel_values (img_var st'))"
  shows "v = NaN \<or> in_range (- (3 / 2)) (3 / 2) v"
proof -
  from assms(1) obtain var' where "img_var st' = clip_by_value var' (- (3 / 2)) (3 / 2)"
    by (auto simp: st_iteration_def Let_def split: sum.splits option.splits prod.splits)
  with assms(2) show ?thesis
    using clip_in_range [of "- (3 / 2)" "3 / 2" v var'] by simp
qed

lemma st_iteration_rate:
  assumes "st_iteration nb a ct tg st = Inr st'"
  shows "learning_rate (optimizer st') = learning_rate (optimizer st)"
  using assms
  by (auto simp: st_iteration_def apply_gradients_def Let_def
      split: sum.splits option.splits prod.splits)

lemma st_loop_rate:
  "st_loop nb a ct tg ts st = Inr st' \<Longrightarrow>
   learning_rate (optimizer st') = learning_rate (optimizer st)"
proof (induction ts arbitrary: st)
  case Nil
  then show ?case by simp
next
  case (Cons t ts)
  from Cons.prems obtain st1 where it: "st_iteration nb a ct tg st = Inr st1"
    and rest: "st_loop nb a ct tg ts st1 = Inr st'"
    by (auto split: sum.splits)
  from Cons.IH [OF rest] st_iteration_rate [OF it] show ?case by simp
qed

lemma setup_rate:
  assumes "style_transfer_setup nb a = Inr (ct, tg, st0)"
  shows "learning_rate (optimizer st0) = Rate 3"
  using assms
  by (auto simp: style_transfer_setup_def PiecewiseConstantDecay_def Adam_def Let_def
      split: sum.splits)

text \<open>
  The schedule that the setup builds is 3 up to step 180 and 1/10 beyond, and an optimizer
  that is given a schedule follows it.
\<close>

lemma schedule_values:
  "piecewise_constant [180] [3, 1 / 10] t = (if t \<le> 180 then 3 else 1 / 10)"
  by simp

lemma current_rate_of_schedule:
  "current_rate \<lparr>learning_rate = Schedule f, iterations = n, slots = s\<rparr> = f n"
  by (simp add: current_rate_def)

text \<open>
  Claim C5. The optimizer should apply learning rate 3.0 in iterations \<open>t < 180\<close> and 0.1 in
  iterations \<open>t \<ge> 180\<close>. In the state that iteration \<open>t\<close> starts from, whatever \<open>t\<close> is, the
  rate of the optimizer is 3, and the update it applies is Adam's at rate 3: the rate
  never decays.
\<close>

theorem style_transfer_rate_stays_initial:
  assumes "style_transfer_upto nb a t = Inr st"
  shows "current_rate (optimizer st) = 3 \<and>
         fst (apply_gradients nb (optimizer st) g x)
           = fst (adam_update nb 3 (iterations (optimizer st)) (slots (optimizer st)) g x)"
proof -
  from assms obtain ct tg st0 where init: "style_transfer_setup nb a = Inr (ct, tg, st0)"
    and loop: "st_loop nb a ct tg [0..<t] st0 = Inr st"
    by (auto simp: style_transfer_upto_def split: sum.splits)
  from st_loop_rate [OF loop] setup_rate [OF init]
  have "learning_rate (optimizer st) = Rate 3" by simp
  then have rate: "current_rate (optimizer st) = 3" by (simp add: current_rate_def)
  then show ?thesis
    by (simp add: apply_gradients_def split: prod.splits)
qed

text \<open>
  Claim C8, amended. After every iteration \<open>t\<close> of the loop, that is after its clip step,
  every pixel value of the generated image is NaN or lies between -1.5 and 1.5.
\<close>

theorem style_transfer_pixels_clipped_or_nan:
  assumes "style_transfer_upto nb a (Suc t) = Inr st"
  shows "\<forall>v \<in> set (pixel_values (img_var st)). v = NaN \<or> in_range (- (3 / 2)) (3 / 2) v"
proof -
  from assms obtain ct tg st0 where
    loop: "st_loop nb a ct tg ([0..<t] @ [t]) st0 = Inr st"
    by (auto simp: style_transfer_upto_def split: sum.splits)
  then obtain st1 where "st_iteration nb a ct tg st1 = Inr st"
    by (auto simp: st_loop_append split: sum.splits)
  then show ?thesis
    using st_iteration_clipped by blast
qed

text \<open>
  The run of the example notebook: the first iteration takes the pixel from 0 to -3,
  clipped to -3/2, and every later one from -3/2 to -9/2, clipped to -3/2 again.
\<close>

lemma example_setup:
  "style_transfer_setup example_notebook example_args =
     Inr ([[[[Num 0]]]],
          [Some [[1, 2], [3, 4]], Some [[1, 2], [3, 4]], Some [[1, 2], [3, 4]],
           Some [[1, 2], [3, 4]]],
          \<lparr>img_var = [[[[Num 0]]]], optimizer = \<lparr>learning_rate = Rate 3, iterations = 0, slots = ()\<rparr>\<rparr>)"
  by (simp add: style_transfer_setup_def example_notebook_def example_args_def example_model_def
      extract_features_def slice_to_def slice_bound_def py_index_def PiecewiseConstantDecay_def
      Adam_def example_gram_matrix_def Let_def)

lemma example_iteration:
  "st_iteration example_notebook example_args [[[[Num 0]]]] tg
     \<lparr>img_var = [[[[Num v]]]], optimizer = \<lparr>learning_rate = Rate 3, iterations = n, slots = ()\<rparr>\<rparr>
   = Inr \<lparr>img_var = [[[[Num (max (- (3 / 2)) (min (v - 3) (3 / 2)))]]]],
          optimizer = \<lparr>learning_rate = Rate 3, iterations = Suc n, slots = ()\<rparr>\<rparr>"
  by (simp add: st_iteration_def st_loss_def example_notebook_def example_args_def
      example_model_def extract_features_def slice_to_def slice_bound_def py_index_def
      py_add_def apply_gradients_def current_rate_def clip_by_value_def example_content_loss_def
      example_style_loss_def example_tv_loss_def example_step_def tf_maximum_def
      tf_minimum_def Let_def)

lemma example_loop:
  "st_loop example_notebook example_args [[[[Num 0]]]] tg [k..<k + n]
     \<lparr>img_var = [[[[Num (- (3 / 2))]]]], optimizer = \<lparr>learning_rate = Rate 3, iterations = m, slots = ()\<rparr>\<rparr>
   = Inr \<lparr>img_var = [[[[Num (- (3 / 2))]]]],
          optimizer = \<lparr>learning_rate = Rate 3, iterations = m + n, slots = ()\<rparr>\<rparr>"
proof (induction n arbitrary: k m)
  case 0
  show ?case by simp
next
  case (Suc n)
  have "[k..<k + Suc n] = k # [Suc k..<Suc k + n]"
    by (simp add: upt_conv_Cons)
  then show ?case
    using Suc.IH [of "Suc k" "Suc m"] by (simp add: example_iteration)
qed

lemma example_run:
  "style_transfer_upto example_notebook example_args (Suc n) =
     Inr \<lparr>img_var = [[[[Num (- (3 / 2))]]]],
          optimizer = \<lparr>learning_rate = Rate 3, iterations = Suc n, slots = ()\<rparr>\<rparr>"
proof -
  have "[0..<Suc n] = 0 # [1..<1 + n]" by (simp add: upt_conv_Cons)
  then show ?thesis
    using example_loop [of _ 1 n 1]
    by (simp add: style_transfer_upto_def example_setup example_iteration)
qed

text \<open>Iteration 180 of the example run starts with rate 3, not 1/10.\<close>

theorem style_transfer_rate_stays_initial_witness:
  "\<exists>st. style_transfer_upto example_notebook example_args 180 = Inr st \<and>
        current_rate (optimizer st) = 3 \<and> current_rate (optimizer st) \<noteq> 1 / 10"
proof -
  have run: "style_transfer_upto example_notebook example_args 180 =
     Inr \<lparr>img_var = [[[[Num (- (3 / 2))]]]],
          optimizer = \<lparr>learning_rate = Rate 3, iterations = 180, slots = ()\<rparr>\<rparr>"
    using example_run [of 179] by simp
  from style_transfer_rate_stays_initial [OF run] show ?thesis
    by (simp add: run)
qed

theorem style_transfer_pixels_clipped_or_nan_witness:
  "style_transfer_upto example_notebook example_args (Suc 0) =
     Inr \<lparr>img_var = [[[[Num (- (3 / 2))]]]],
          optimizer = \<lparr>learning_rate = Rate 3, iterations = 1, slots = ()\<rparr>\<rparr> \<and>
   list_all (\<lambda>v. v = NaN \<or> in_range (- (3 / 2)) (3 / 2) v)
     (pixel_values [[[[Num (- (3 / 2))]]]])"
proof -
  have run: "style_transfer_upto example_notebook example_args (Suc 0) =
     Inr \<lparr>img_var = [[[[Num (- (3 / 2))]]]],
          optimizer = \<lparr>learning_rate = Rate 3, iterations = 1, slots = ()\<rparr>\<rparr>"
    using example_run [of 0] by simp
  from style_transfer_pixels_clipped_or_nan [OF run] show ?thesis
    by (simp add: run list_all_iff)
qed

text \<open>
  Claim C8 as stated fails: where the gradient is NaN, the pixel that the update leaves is
  NaN, the clip passes it through, and NaN is not between -1.5 and 1.5.
\<close>

theorem style_transfer_pixel_nan_after_clip:
  "style_transfer_upto nan_notebook example_args (Suc 0) =
     Inr \<lparr>img_var = [[[[NaN]]]],
          optimizer = \<lparr>learning_rate = Rate 3, iterations = 1, slots = ()\<rparr>\<rparr> \<and>
   \<not> list_all (in_range (- (3 / 2)) (3 / 2)) (pixel_values [[[[NaN]]]])"
  by (simp add: style_transfer_upto_def style_transfer_setup_def st_iteration_def st_loss_def
      nan_notebook_def example_notebook_def example_args_def example_model_def
      extract_features_def slice_to_def slice_bound_def py_index_def PiecewiseConstantDecay_def
      Adam_def example_gram_matrix_def py_add_def apply_gradients_def current_rate_def
      clip_by_value_def example_content_loss_def example_style_loss_def example_tv_loss_def
      example_step_def tf_maximum_def tf_minimum_def pixel_values_def in_range_def Let_def)

text \<open>
  With \<open>content_loss\<close> as the notebook defines it, the sum of the losses raises in every
  iteration (unless the indexing of the features has raised before).
\<close>

lemma st_iteration_as_written:
  assumes "content_loss_fn nb = content_loss"
  shows "raises (st_iteration nb a ct tg st)"
  using assms
  by (simp add: raises_def st_iteration_def st_loss_def content_loss_def py_add_def Let_def
      split: sum.splits)

end
